theory Spec2Isabelle
  imports Complex_Main
begin

section \<open>The EDM exporter of io\_EDM (writer.py)\<close>

text \<open>
  A shallow embedding of \<^verbatim>\<open>io_EDM/writer.py\<close>: the scene host (Blender's \<^verbatim>\<open>bpy\<close>) is a
  record that is passed through the functions and returned updated, every Python exception
  is a value of \<open>py_error\<close>, and a Python float is the real number it stands for: copying,
  negating and comparing floats is exact, and the one subtraction and the one conversion
  of the exporter round their result as a double does.
\<close>

subsection \<open>Errors and values\<close>

datatype py_error = IndexError | KeyError | AttributeError | AssertionError | UnboundLocalError

type_synonym vec3 = "real \<times> real \<times> real"

type_synonym matrix = "real list list"

text \<open>Iterating a 3-vector, as \<^verbatim>\<open>itertools.chain\<close> and \<^verbatim>\<open>point[index]\<close> do.\<close>

fun vec_list :: "vec3 \<Rightarrow> real list" where
  "vec_list (x, y, z) = [x, y, z]"

definition vec_nth :: "vec3 \<Rightarrow> nat \<Rightarrow> real" where
  "vec_nth p index = vec_list p ! index"

subsection \<open>What the host provides\<close>

text \<open>A texture slot of a material; \<open>image_filepath\<close> is \<^verbatim>\<open>texture.image.filepath\<close>, absent when
  the slot's texture carries no image (the attribute access then raises).\<close>

record texture_slot =
  image_filepath :: "string option"
  use_map_color_diffuse :: bool
  use_map_normal :: bool
  use_map_specular :: bool

text \<open>A source material. \<open>edm_blending\<close> holds the number that \<^verbatim>\<open>int(source.edm_blending)\<close>
  yields; the entries of \<open>texture_slots\<close> may be \<^verbatim>\<open>None\<close>.\<close>

record bmaterial =
  bm_name :: string
  edm_blending :: int
  edm_material :: string
  specular_hardness :: int
  specular_intensity :: real
  diffuse_intensity :: real
  mirror_use :: bool
  mirror_reflect_factor :: real
  mirror_gloss_factor :: real
  use_shadows :: bool
  use_cast_shadows :: bool
  use_cast_shadows_only :: bool
  texture_slots :: "texture_slot option list"

record mvert =
  co :: vec3
  normal :: vec3

text \<open>A mesh: each tessface is the list \<^verbatim>\<open>face.vertices\<close>; the active UV layer, when there is
  one, is the list of \<^verbatim>\<open>uvFace.uv\<close> sequences.\<close>

record bmesh =
  vertices :: "mvert list"
  tessfaces :: "nat list list"
  tessface_uv_active :: "(real \<times> real) list list option"

record material_slot =
  slot_material :: "bmaterial option"

record bobject =
  o_name :: string
  o_type :: string
  material_slots :: "material_slot list"
  matrix_local :: matrix
  matrix_world :: matrix
  bound_box :: "vec3 list"
  to_mesh :: "bool \<Rightarrow> bmesh"

subsection \<open>The entities of the exported graph\<close>

record texture =
  t_index :: nat
  t_name :: string
  t_matrix :: matrix

record material =
  blending :: int
  material_name :: string
  m_name :: string
  uniforms :: "string \<rightharpoonup> real"
  shadows_recieve :: bool
  shadows_cast :: bool
  shadows_cast_only :: bool
  vertex_format :: "(string \<times> nat) list"
  texture_coordinates_channels :: "int list"
  textures :: "texture list"
  m_index :: "nat option"

text \<open>A render node as \<open>create_rendernode\<close> returns it: the material is a reference (the key
  of the \<open>materialMap\<close> entry), the parent whatever a fresh \<^verbatim>\<open>RenderNode()\<close> holds.\<close>

record 'n rendernode =
  rn_name :: string
  rn_material :: string
  rn_parent :: "'n option"
  vertexData :: "real list list"
  indexData :: "nat list"

text \<open>The same node once \<open>write_file\<close> has overwritten both references by indices.\<close>

record rendernode_resolved =
  rr_name :: string
  rr_material :: "nat option"
  rr_parent :: nat
  rr_vertexData :: "real list list"
  rr_indexData :: "nat list"

record rootnode =
  r_materials :: "material list"
  boundingBoxMin :: vec3
  boundingBoxMax :: vec3

record 'n edmfile =
  f_root :: rootnode
  f_nodes :: "'n list"
  f_renderNodes :: "rendernode_resolved list"

text \<open>The names imported from \<^verbatim>\<open>edm.types\<close>, \<^verbatim>\<open>edm.mathtypes\<close> and the host's vector library,
  whose code is not part of \<^verbatim>\<open>writer.py\<close>: they are parameters of the model.\<close>

record 'n edm =
  vector_to_edm :: "vec3 \<Rightarrow> vec3"
  Matrix_new :: matrix
  Node_new :: 'n
  RenderNode_parent :: "'n option"
  mesh_transform :: "matrix \<Rightarrow> bmesh \<Rightarrow> bmesh"
  matrix_mul :: "matrix \<Rightarrow> vec3 \<Rightarrow> vec3"

text \<open>The host state the exporter reads and changes: the scene's objects, the mesh
  datablocks (\<^verbatim>\<open>bpy.data.meshes\<close>) and the files a \<^verbatim>\<open>BaseWriter\<close> has opened, each with the
  graph written to it.\<close>

record 'n host =
  scene_objects :: "bobject list"
  data_meshes :: "bmesh list"
  files :: "(string \<times> 'n edmfile) list"

subsection \<open>Strings\<close>

text \<open>\<^verbatim>\<open>os.path.basename\<close>: what follows the last slash.\<close>

definition basename :: "string \<Rightarrow> string" where
  "basename p = rev (takeWhile (\<lambda>c. c \<noteq> CHR ''/'') (rev p))"

text \<open>\<^verbatim>\<open>s.find(c)\<close>: the first position of \<open>c\<close>, or \<open>-1\<close>.\<close>

definition str_find :: "string \<Rightarrow> char \<Rightarrow> int" where
  "str_find s c = (if c \<in> set s then int (length (takeWhile (\<lambda>d. d \<noteq> c) s)) else - 1)"

text \<open>\<^verbatim>\<open>s[:k]\<close>: a negative bound counts from the end.\<close>

definition slice_to :: "string \<Rightarrow> int \<Rightarrow> string" where
  "slice_to s k = (if k < 0 then take (nat (int (length s) + k)) s else take (nat k) s)"

subsection \<open>Float arithmetic\<close>

text \<open>
  A Python float is a double. Where the exporter computes with floats (\<^verbatim>\<open>float(n)\<close> and
  \<^verbatim>\<open>1.0 - x\<close>) the result is the exact result rounded to the nearest number with a
  significand of 53 bits, a tie going to the even significand. The exponent is not
  bounded here: the gloss factor and the hardness are host properties of a small range,
  far from the largest and the smallest double.
\<close>

text \<open>\<^verbatim>\<open>n.bit_length()\<close>.\<close>

function bit_length :: "int \<Rightarrow> nat" where
  "bit_length k = (if k \<le> 0 then 0 else Suc (bit_length (k div 2)))"
  by pat_completeness auto
termination
  by (relation "measure nat") auto

text \<open>The exponent \<open>e\<close> of a positive number \<open>a\<close>: \<open>2 ^ e \<le> a < 2 ^ (e + 1)\<close>.\<close>

definition binary_exponent :: "real \<Rightarrow> int" where
  "binary_exponent a =
     (if 1 \<le> a then int (bit_length \<lfloor>a\<rfloor>) - 1
      else - int (bit_length (\<lceil>1 / a\<rceil> - 1)))"

definition pow2 :: "int \<Rightarrow> real" where
  "pow2 z = (if 0 \<le> z then 2 ^ nat z else 1 / 2 ^ nat (- z))"

definition round_half_even :: "real \<Rightarrow> int" where
  "round_half_even m =
     (let f = \<lfloor>m\<rfloor>; d = m - of_int f
      in if d < 1 / 2 then f
         else if 1 / 2 < d then f + 1
         else if f mod 2 = 0 then f else f + 1)"

definition double_round :: "real \<Rightarrow> real" where
  "double_round x =
     (if x = 0 then 0
      else let a = \<bar>x\<bar>; ulp = pow2 (binary_exponent a - 52)
           in sgn x * of_int (round_half_even (a / ulp)) * ulp)"

text \<open>\<^verbatim>\<open>float(n)\<close> for an \<^verbatim>\<open>int\<close>, and the subtraction of two floats.\<close>

definition py_float :: "int \<Rightarrow> real" where
  "py_float n = double_round (of_int n)"

definition float_sub :: "real \<Rightarrow> real \<Rightarrow> real" where
  "float_sub x y = double_round (x - y)"

subsection \<open>create\_texture and create\_material\<close>

definition create_texture :: "'n edm \<Rightarrow> texture_slot \<Rightarrow> py_error + texture" where
  "create_texture env source =
     (case image_filepath source of
        None \<Rightarrow> Inl AttributeError
      | Some filepath \<Rightarrow>
          (let texName = basename filepath;
               texName = slice_to texName (str_find texName CHR ''.'')
           in if use_map_color_diffuse source
              then Inr \<lparr>t_index = 0, t_name = texName, t_matrix = Matrix_new env\<rparr>
              else if use_map_normal source
              then Inr \<lparr>t_index = 1, t_name = texName, t_matrix = Matrix_new env\<rparr>
              else if use_map_specular source
              then Inr \<lparr>t_index = 2, t_name = texName, t_matrix = Matrix_new env\<rparr>
              else Inl UnboundLocalError))"

text \<open>Modelled from the spec: the constructor \<^verbatim>\<open>Material()\<close> of \<^verbatim>\<open>edm.types\<close> is not in
  \<^verbatim>\<open>writer.py\<close>. The two fields \<open>create_material\<close> does not assign start empty: the built
  Material has ``exactly one Texture'', and its index is given by \<open>write_file\<close>.\<close>

definition Material_textures :: "texture list" where
  "Material_textures = []"

definition Material_index :: "nat option" where
  "Material_index = None"

text \<open>The slots \<^verbatim>\<open>[x for x in source.texture_slots if x is not None and x.use_map_color_diffuse]\<close>.\<close>

definition diffuseTex :: "bmaterial \<Rightarrow> texture_slot list" where
  "diffuseTex source =
     concat (map (\<lambda>x. case x of None \<Rightarrow> []
                       | Some s \<Rightarrow> if use_map_color_diffuse s then [s] else [])
                 (texture_slots source))"

definition base_uniforms :: "bmaterial \<Rightarrow> (string \<rightharpoonup> real)" where
  "base_uniforms source =
     [''specPower'' \<mapsto> py_float (specular_hardness source),
      ''specFactor'' \<mapsto> specular_intensity source,
      ''diffuseValue'' \<mapsto> diffuse_intensity source,
      ''reflectionValue'' \<mapsto> 0]"

definition create_material :: "'n edm \<Rightarrow> bmaterial \<Rightarrow> py_error + material" where
  "create_material env source =
     (let u = base_uniforms source;
          u = (if mirror_use source
               then u(''reflectionValue'' \<mapsto> mirror_reflect_factor source,
                      ''reflectionBlurring'' \<mapsto> float_sub 1 (mirror_gloss_factor source))
               else u)
      in if length (diffuseTex source) \<noteq> 1 then Inl AssertionError
         else case create_texture env (diffuseTex source ! 0) of
                Inl e \<Rightarrow> Inl e
              | Inr t \<Rightarrow>
                  Inr \<lparr>blending = edm_blending source,
                       material_name = edm_material source,
                       m_name = bm_name source,
                       uniforms = u,
                       shadows_recieve = use_shadows source,
                       shadows_cast = use_cast_shadows source,
                       shadows_cast_only = use_cast_shadows_only source,
                       vertex_format = [(''position'', 4), (''normal'', 3), (''tex0'', 2)],
                       texture_coordinates_channels = [0] @ replicate 11 (- 1),
                       textures = Material_textures @ [t],
                       m_index = Material_index\<rparr>)"

subsection \<open>create\_rendernode\<close>

text \<open>\<^verbatim>\<open>xs[i]\<close> for an index that is not negative.\<close>

definition py_index :: "'a list \<Rightarrow> nat \<Rightarrow> py_error + 'a" where
  "py_index xs i = (if i < length xs then Inr (xs ! i) else Inl IndexError)"

text \<open>\<^verbatim>\<open>bpy.data.meshes.remove(mesh)\<close>, the mesh being known by its place in the collection.\<close>

definition remove_at :: "nat \<Rightarrow> 'a list \<Rightarrow> 'a list" where
  "remove_at i xs = take i xs @ drop (Suc i) xs"

text \<open>The vertex appended for entry \<open>i\<close> of a face, which names mesh vertex \<open>vtxIndex\<close>.\<close>

definition new_vertex ::
  "'n edm \<Rightarrow> bmesh \<Rightarrow> (real \<times> real) list \<Rightarrow> nat \<Rightarrow> nat \<Rightarrow> py_error + real list" where
  "new_vertex env mesh uv i vtxIndex =
     (case py_index (vertices mesh) vtxIndex of
        Inl e \<Rightarrow> Inl e
      | Inr mv \<Rightarrow>
          (let position = vector_to_edm env (co mv);
               nrm = vector_to_edm env (normal mv)
           in case py_index uv i of
                Inl e \<Rightarrow> Inl e
              | Inr t \<Rightarrow> Inr (vec_list position @ [0] @ vec_list nrm @ [fst t, - snd t])))"

text \<open>The tuple \<open>new_vertex\<close> builds from a mesh vertex and a UV pair, written out.\<close>

abbreviation edm_vertex :: "'n edm \<Rightarrow> mvert \<Rightarrow> real \<times> real \<Rightarrow> real list" where
  "edm_vertex env mv t \<equiv>
     vec_list (vector_to_edm env (co mv)) @ [0] @ vec_list (vector_to_edm env (normal mv))
       @ [fst t, - snd t]"

text \<open>The loop \<^verbatim>\<open>for i, vtxIndex in enumerate(face.vertices)\<close>, from position \<open>i\<close> on.\<close>

fun face_vertices ::
  "'n edm \<Rightarrow> bmesh \<Rightarrow> (real \<times> real) list \<Rightarrow> nat \<Rightarrow> nat list \<Rightarrow> real list list
     \<Rightarrow> py_error + real list list" where
  "face_vertices env mesh uv i [] newVertices = Inr newVertices"
| "face_vertices env mesh uv i (vtxIndex # rest) newVertices =
     (case new_vertex env mesh uv i vtxIndex of
        Inl e \<Rightarrow> Inl e
      | Inr v \<Rightarrow> face_vertices env mesh uv (Suc i) rest (newVertices @ [v]))"

definition triangles :: "nat list \<Rightarrow> nat list list" where
  "triangles face = (if length face = 3 then [[0, 1, 2]] else [[0, 1, 2], [2, 3, 0]])"

text \<open>The loops \<^verbatim>\<open>for tri in triangles: for i in tri\<close>, over the triangles laid end to end.\<close>

fun write_indices :: "nat list \<Rightarrow> nat list \<Rightarrow> nat list \<Rightarrow> py_error + nat list" where
  "write_indices newFaceIndex [] newIndexValues = Inr newIndexValues"
| "write_indices newFaceIndex (i # rest) newIndexValues =
     (case py_index newFaceIndex i of
        Inl e \<Rightarrow> Inl e
      | Inr k \<Rightarrow> write_indices newFaceIndex rest (newIndexValues @ [k]))"

text \<open>One round of the loop over the faces and their UV data.\<close>

definition flatten_face ::
  "'n edm \<Rightarrow> bmesh \<Rightarrow> real list list \<times> nat list \<Rightarrow> nat list \<times> (real \<times> real) list
     \<Rightarrow> py_error + real list list \<times> nat list" where
  "flatten_face env mesh acc fu =
     (case acc of (newVertices, newIndexValues) \<Rightarrow>
      case fu of (face, uvFace) \<Rightarrow>
        (let newFaceIndex = map (\<lambda>x. length newVertices + x) [0..<length face]
         in case face_vertices env mesh uvFace 0 face newVertices of
              Inl e \<Rightarrow> Inl e
            | Inr newVertices' \<Rightarrow>
                (case write_indices newFaceIndex (concat (triangles face)) newIndexValues of
                   Inl e \<Rightarrow> Inl e
                 | Inr newIndexValues' \<Rightarrow> Inr (newVertices', newIndexValues'))))"

fun flatten_faces ::
  "'n edm \<Rightarrow> bmesh \<Rightarrow> real list list \<times> nat list \<Rightarrow> (nat list \<times> (real \<times> real) list) list
     \<Rightarrow> py_error + real list list \<times> nat list" where
  "flatten_faces env mesh acc [] = Inr acc"
| "flatten_faces env mesh acc (fu # rest) =
     (case flatten_face env mesh acc fu of
        Inl e \<Rightarrow> Inl e
      | Inr acc' \<Rightarrow> flatten_faces env mesh acc' rest)"

text \<open>\<^verbatim>\<open>options.get("apply_modifiers", False)\<close>.\<close>

definition apply_modifiers :: "(string \<rightharpoonup> bool) \<Rightarrow> bool" where
  "apply_modifiers options = (case options ''apply_modifiers'' of None \<Rightarrow> False | Some b \<Rightarrow> b)"

text \<open>The host after \<^verbatim>\<open>source.to_mesh(...)\<close> and \<^verbatim>\<open>mesh.transform(source.matrix_local)\<close>: the new
  mesh is the last datablock, at position \<open>length (data_meshes h)\<close>.\<close>

definition remeshed :: "'n edm \<Rightarrow> 'n host \<Rightarrow> bobject \<Rightarrow> (string \<rightharpoonup> bool) \<Rightarrow> 'n host" where
  "remeshed env h source options =
     (let handle = length (data_meshes h);
          h1 = h\<lparr>data_meshes := data_meshes h @ [to_mesh source (apply_modifiers options)]\<rparr>
      in h1\<lparr>data_meshes :=
              (data_meshes h1)[handle :=
                 mesh_transform env (matrix_local source) (data_meshes h1 ! handle)]\<rparr>)"

definition create_rendernode ::
  "'n edm \<Rightarrow> 'n host \<Rightarrow> bobject \<Rightarrow> string \<Rightarrow> (string \<rightharpoonup> bool)
     \<Rightarrow> (py_error + 'n rendernode) \<times> 'n host" where
  "create_rendernode env h source material options =
     (let handle = length (data_meshes h);
          h2 = remeshed env h source options;
          mesh = data_meshes h2 ! handle
      in case tessface_uv_active mesh of
           None \<Rightarrow> (Inl AttributeError, h2)
         | Some uv_tex \<Rightarrow>
             (case flatten_faces env mesh ([], []) (zip (tessfaces mesh) uv_tex) of
                Inl e \<Rightarrow> (Inl e, h2)
              | Inr (newVertices, newIndexValues) \<Rightarrow>
                  (Inr \<lparr>rn_name = o_name source, rn_material = material,
                        rn_parent = RenderNode_parent env,
                        vertexData = newVertices, indexData = newIndexValues\<rparr>,
                   h2\<lparr>data_meshes := remove_at handle (data_meshes h2)\<rparr>)))"

subsection \<open>calculate\_world\_bounds\<close>

text \<open>\<^verbatim>\<open>Vector(mins)\<close> for a list of three numbers.\<close>

definition Vector :: "real list \<Rightarrow> vec3" where
  "Vector xs = (xs ! 0, xs ! 1, xs ! 2)"

text \<open>The two assignments made for one \<open>index\<close>; both lists end with the value held so far,
  so \<^verbatim>\<open>min\<close> and \<^verbatim>\<open>max\<close> never see an empty list.\<close>

definition bounds_index ::
  "vec3 list \<Rightarrow> nat \<Rightarrow> real list \<times> real list \<Rightarrow> real list \<times> real list" where
  "bounds_index points index acc =
     (case acc of (mins, maxs) \<Rightarrow>
        (mins[index := Min (set (map (\<lambda>point. vec_nth point index) points @ [mins ! index]))],
         maxs[index := Max (set (map (\<lambda>point. vec_nth point index) points @ [maxs ! index]))]))"

definition bounds_object ::
  "'n edm \<Rightarrow> bobject \<Rightarrow> real list \<times> real list \<Rightarrow> real list \<times> real list" where
  "bounds_object env obj acc =
     (if o_type obj \<in> set [''CAMERA''] then acc
      else let points = map (matrix_mul env (matrix_world obj)) (bound_box obj)
           in fold (bounds_index points) [0..<3] acc)"

definition calculate_world_bounds :: "'n edm \<Rightarrow> bobject list \<Rightarrow> vec3 \<times> vec3" where
  "calculate_world_bounds env objects =
     (case fold (bounds_object env) objects
             ([10 ^ 38, 10 ^ 38, 10 ^ 38], [- (10 ^ 38), - (10 ^ 38), - (10 ^ 38)]) of
        (mins, maxs) \<Rightarrow> (Vector mins, Vector maxs))"

text \<open>What the bounds are to be compared with: the coordinates number \<open>index\<close> of the
  world-space corners of one object's bounding box, and of all objects that are no cameras.\<close>

definition corner_coords :: "'n edm \<Rightarrow> bobject \<Rightarrow> nat \<Rightarrow> real list" where
  "corner_coords env obj index =
     map (\<lambda>x. vec_nth (matrix_mul env (matrix_world obj) x) index) (bound_box obj)"

definition world_coords :: "'n edm \<Rightarrow> bobject list \<Rightarrow> nat \<Rightarrow> real list" where
  "world_coords env objects index =
     concat (map (\<lambda>obj. corner_coords env obj index)
               (filter (\<lambda>obj. o_type obj \<noteq> ''CAMERA'') objects))"

subsection \<open>write\_file\<close>

fun mapM_err :: "('a \<Rightarrow> py_error + 'b) \<Rightarrow> 'a list \<Rightarrow> py_error + 'b list" where
  "mapM_err f [] = Inr []"
| "mapM_err f (x # xs) =
     (case f x of
        Inl e \<Rightarrow> Inl e
      | Inr y \<Rightarrow> (case mapM_err f xs of Inl e \<Rightarrow> Inl e | Inr ys \<Rightarrow> Inr (y # ys)))"

text \<open>\<^verbatim>\<open>obj.material_slots[0].material\<close>, which may be \<^verbatim>\<open>None\<close>.\<close>

definition first_material :: "bobject \<Rightarrow> py_error + bmaterial option" where
  "first_material obj =
     (case py_index (material_slots obj) 0 of Inl e \<Rightarrow> Inl e | Inr slot \<Rightarrow> Inr (slot_material slot))"

text \<open>The dictionary \<^verbatim>\<open>{m.name: create_material(m) for m in all_Materials}\<close>: a later entry
  of the same name replaces the earlier one. Each value is one Material object, so the
  dictionary is also the store through which \<open>materials\<close> and the render nodes refer to it.\<close>

fun build_materialMap ::
  "'n edm \<Rightarrow> bmaterial option list \<Rightarrow> (string \<rightharpoonup> material) \<Rightarrow> py_error + (string \<rightharpoonup> material)" where
  "build_materialMap env [] materialMap = Inr materialMap"
| "build_materialMap env (m # rest) materialMap =
     (case m of
        None \<Rightarrow> Inl AttributeError
      | Some source \<Rightarrow>
          (case create_material env source of
             Inl e \<Rightarrow> Inl e
           | Inr mat \<Rightarrow> build_materialMap env rest (materialMap(bm_name source \<mapsto> mat))))"

text \<open>The loop \<^verbatim>\<open>for i, bMat in enumerate(all_Materials)\<close>, from position \<open>i\<close> on: it writes
  \<open>i\<close> into the Material object itself and appends a reference to it.\<close>

fun assign_indices ::
  "(string \<rightharpoonup> material) \<Rightarrow> string list \<Rightarrow> nat \<Rightarrow> bmaterial option list
     \<Rightarrow> py_error + (string \<rightharpoonup> material) \<times> string list" where
  "assign_indices materialMap materials i [] = Inr (materialMap, materials)"
| "assign_indices materialMap materials i (bMat # rest) =
     (case bMat of
        None \<Rightarrow> Inl AttributeError
      | Some b \<Rightarrow>
          (case materialMap (bm_name b) of
             None \<Rightarrow> Inl KeyError
           | Some mat \<Rightarrow>
               assign_indices (materialMap(bm_name b \<mapsto> mat\<lparr>m_index := Some i\<rparr>))
                 (materials @ [bm_name b]) (Suc i) rest))"

text \<open>Reading the Material objects a list of references points to.\<close>

definition deref :: "(string \<rightharpoonup> material) \<Rightarrow> string list \<Rightarrow> py_error + material list" where
  "deref materialMap refs =
     mapM_err (\<lambda>k. case materialMap k of None \<Rightarrow> Inl KeyError | Some mat \<Rightarrow> Inr mat) refs"

text \<open>The loop that builds one render node for each mesh object.\<close>

fun build_renderNodes ::
  "'n edm \<Rightarrow> (string \<rightharpoonup> material) \<Rightarrow> (string \<rightharpoonup> bool) \<Rightarrow> 'n host \<Rightarrow> bobject list
     \<Rightarrow> (py_error + 'n rendernode list) \<times> 'n host" where
  "build_renderNodes env materialMap options h [] = (Inr [], h)"
| "build_renderNodes env materialMap options h (obj # rest) =
     (case first_material obj of
        Inl e \<Rightarrow> (Inl e, h)
      | Inr None \<Rightarrow> (Inl AttributeError, h)
      | Inr (Some b) \<Rightarrow>
          (case materialMap (bm_name b) of
             None \<Rightarrow> (Inl KeyError, h)
           | Some mat \<Rightarrow>
               (case create_rendernode env h obj (bm_name b) options of
                  (Inl e, h') \<Rightarrow> (Inl e, h')
                | (Inr node, h') \<Rightarrow>
                    (case build_renderNodes env materialMap options h' rest of
                       (Inl e, h'') \<Rightarrow> (Inl e, h'')
                     | (Inr renderNodes, h'') \<Rightarrow> (Inr (node # renderNodes), h'')))))"

text \<open>The loop that builds the node list: each render node's parent becomes an index into
  \<open>nodes\<close>, its material the index stored in the Material object it refers to.\<close>

fun build_nodes ::
  "(string \<rightharpoonup> material) \<Rightarrow> 'n list \<Rightarrow> 'n rendernode list
     \<Rightarrow> 'n list \<times> rendernode_resolved list" where
  "build_nodes materialMap nodes [] = (nodes, [])"
| "build_nodes materialMap nodes (rn # rest) =
     (let nodes' = (case rn_parent rn of None \<Rightarrow> nodes | Some p \<Rightarrow> nodes @ [p]);
          parent = (case rn_parent rn of None \<Rightarrow> 0 | Some p \<Rightarrow> length nodes' - 1);
          resolved = \<lparr>rr_name = rn_name rn,
                      rr_material =
                        (case materialMap (rn_material rn) of
                           None \<Rightarrow> None
                         | Some mat \<Rightarrow> m_index mat),
                      rr_parent = parent,
                      rr_vertexData = vertexData rn,
                      rr_indexData = indexData rn\<rparr>
      in case build_nodes materialMap nodes' rest of
           (nodes'', renderNodes) \<Rightarrow> (nodes'', resolved # renderNodes))"

text \<open>The graph \<open>write_file\<close> assembles, with the host as the render nodes left it. The
  Material objects are read when the root node is filled, after the last index was written.\<close>

definition assemble ::
  "'n edm \<Rightarrow> (string \<rightharpoonup> bool) \<Rightarrow> 'n host \<Rightarrow> (py_error + 'n edmfile) \<times> 'n host" where
  "assemble env options h =
     (let all_MeshObj = filter (\<lambda>x. o_type x = ''MESH'') (scene_objects h)
      in case mapM_err first_material all_MeshObj of
           Inl e \<Rightarrow> (Inl e, h)
         | Inr all_Materials \<Rightarrow>
      (case build_materialMap env all_Materials Map.empty of
           Inl e \<Rightarrow> (Inl e, h)
         | Inr materialMap0 \<Rightarrow>
      (case assign_indices materialMap0 [] 0 all_Materials of
           Inl e \<Rightarrow> (Inl e, h)
         | Inr (materialMap, materials) \<Rightarrow>
      (case build_renderNodes env materialMap options h all_MeshObj of
           (Inl e, h') \<Rightarrow> (Inl e, h')
         | (Inr renderNodes0, h') \<Rightarrow>
      (case build_nodes materialMap [Node_new env] renderNodes0 of
           (nodes, renderNodes) \<Rightarrow>
      (case deref materialMap materials of
           Inl e \<Rightarrow> (Inl e, h')
         | Inr mats \<Rightarrow>
      (case calculate_world_bounds env (scene_objects h') of
           (bboxmin, bboxmax) \<Rightarrow>
             (Inr \<lparr>f_root = \<lparr>r_materials = mats,
                           boundingBoxMin = vector_to_edm env bboxmin,
                           boundingBoxMax = vector_to_edm env bboxmax\<rparr>,
                   f_nodes = nodes, f_renderNodes = renderNodes\<rparr>, h'))))))))"

text \<open>\<open>write_file\<close>: only once the graph is assembled is a writer created on \<open>filename\<close>.\<close>

definition write_file ::
  "'n edm \<Rightarrow> string \<Rightarrow> (string \<rightharpoonup> bool) \<Rightarrow> 'n host \<Rightarrow> (py_error + unit) \<times> 'n host" where
  "write_file env filename options h =
     (case assemble env options h of
        (Inl e, h') \<Rightarrow> (Inl e, h')
      | (Inr file, h') \<Rightarrow> (Inr (), h'\<lparr>files := files h' @ [(filename, file)]\<rparr>))"

subsection \<open>Example scenes\<close>

text \<open>An environment in which the imported operations change nothing, and nodes are named.\<close>

definition plain_env :: "string edm" where
  "plain_env = \<lparr>vector_to_edm = (\<lambda>v. v), Matrix_new = [], Node_new = ''root'',
                 RenderNode_parent = None, mesh_transform = (\<lambda>m mesh. mesh),
                 matrix_mul = (\<lambda>m v. v)\<rparr>"

definition wood_slot :: texture_slot where
  "wood_slot = \<lparr>image_filepath = Some ''//textures/wood.dds.png'', use_map_color_diffuse = True,
                 use_map_normal = False, use_map_specular = False\<rparr>"

definition wood_material :: bmaterial where
  "wood_material =
     \<lparr>bm_name = ''M'', edm_blending = 0, edm_material = ''def_material'',
      specular_hardness = 50, specular_intensity = 1 / 2, diffuse_intensity = 3 / 4,
      mirror_use = False, mirror_reflect_factor = 1 / 4, mirror_gloss_factor = 3 / 4,
      use_shadows = True, use_cast_shadows = True, use_cast_shadows_only = False,
      texture_slots = [Some wood_slot, None]\<rparr>"

text \<open>The same material with no texture slot in use, and with the diffuse slot twice.\<close>

definition bare_material :: bmaterial where
  "bare_material = wood_material\<lparr>texture_slots := [None, None]\<rparr>"

definition double_material :: bmaterial where
  "double_material = wood_material\<lparr>texture_slots := [Some wood_slot, Some wood_slot]\<rparr>"

text \<open>The same material with the mirror in use, and with a gloss factor of \<open>2\<close> to the \<open>-60\<close>.\<close>

definition mirror_material :: bmaterial where
  "mirror_material = wood_material\<lparr>mirror_use := True\<rparr>"

definition faint_gloss_material :: bmaterial where
  "faint_gloss_material = mirror_material\<lparr>mirror_gloss_factor := 1 / 2 ^ 60\<rparr>"

text \<open>The uniform of name \<open>k\<close> of the Material that was built, when one was built.\<close>

definition built_uniform :: "py_error + material \<Rightarrow> string \<Rightarrow> real option" where
  "built_uniform r k = (case r of Inl e \<Rightarrow> None | Inr mat \<Rightarrow> uniforms mat k)"

text \<open>A mesh of one triangle and one quad over four vertices, with a UV layer.\<close>

definition sheet_mesh :: bmesh where
  "sheet_mesh =
     \<lparr>vertices = [\<lparr>co = (0, 0, 0), normal = (0, 0, 1)\<rparr>, \<lparr>co = (1, 0, 0), normal = (0, 0, 1)\<rparr>,
                  \<lparr>co = (1, 1, 0), normal = (0, 0, 1)\<rparr>, \<lparr>co = (0, 1, 0), normal = (0, 0, 1)\<rparr>],
      tessfaces = [[0, 1, 2], [0, 1, 2, 3]],
      tessface_uv_active = Some [[(0, 0), (1, 0), (1, 1)], [(0, 0), (1, 0), (1, 1), (0, 1)]]\<rparr>"

definition sheet :: "string \<Rightarrow> bmaterial \<Rightarrow> bobject" where
  "sheet n m =
     \<lparr>o_name = n, o_type = ''MESH'', material_slots = [\<lparr>slot_material = Some m\<rparr>],
      matrix_local = [], matrix_world = [],
      bound_box = [(0, 0, 0), (0, 0, 0), (0, 1, 0), (0, 1, 0), (1, 0, 0), (1, 0, 0), (1, 1, 0), (1, 1, 0)],
      to_mesh = (\<lambda>b. sheet_mesh)\<rparr>"

text \<open>Two mesh objects that use the one material \<open>M\<close>.\<close>

definition two_sheets :: "string host" where
  "two_sheets = \<lparr>scene_objects = [sheet ''A'' wood_material, sheet ''B'' wood_material],
                  data_meshes = [], files = []\<rparr>"

definition bare_scene :: "string host" where
  "bare_scene = \<lparr>scene_objects = [sheet ''A'' bare_material], data_meshes = [], files = []\<rparr>"

text \<open>A mesh object with no material slot at all.\<close>

definition slotless_scene :: "string host" where
  "slotless_scene =
     \<lparr>scene_objects = [sheet ''A'' wood_material, (sheet ''B'' wood_material)\<lparr>material_slots := []\<rparr>],
      data_meshes = [], files = []\<rparr>"

text \<open>The render node \<open>create_rendernode\<close> builds from a sheet.\<close>

definition sheet_node :: "string rendernode" where
  "sheet_node =
     \<lparr>rn_name = ''A'', rn_material = ''M'', rn_parent = None,
      vertexData = [[0, 0, 0, 0, 0, 0, 1, 0, 0], [1, 0, 0, 0, 0, 0, 1, 1, 0],
                    [1, 1, 0, 0, 0, 0, 1, 1, - 1], [0, 0, 0, 0, 0, 0, 1, 0, 0],
                    [1, 0, 0, 0, 0, 0, 1, 1, 0], [1, 1, 0, 0, 0, 0, 1, 1, - 1],
                    [0, 1, 0, 0, 0, 0, 1, 0, - 1]],
      indexData = [0, 1, 2, 3, 4, 5, 5, 6, 3]\<rparr>"




text \<open>A box that lies wholly beyond the coordinate \<open>10 ^ 38\<close>, and a camera.\<close>

definition far_box :: bobject where
  "far_box =
     (sheet ''A'' wood_material)
       \<lparr>bound_box := [(2 * 10 ^ 38, 0, 0), (2 * 10 ^ 38, 0, 1), (2 * 10 ^ 38, 1, 1),
                      (2 * 10 ^ 38, 1, 0), (3 * 10 ^ 38, 0, 0), (3 * 10 ^ 38, 0, 1),
                      (3 * 10 ^ 38, 1, 1), (3 * 10 ^ 38, 1, 0)]\<rparr>"

definition camera_object :: bobject where
  "camera_object =
     (sheet ''Camera'' wood_material)
       \<lparr>o_type := ''CAMERA'',
        bound_box := [(- 5, - 5, - 5), (- 5, - 5, - 5), (- 5, - 5, - 5), (- 5, - 5, - 5),
                      (- 5, - 5, - 5), (- 5, - 5, - 5), (- 5, - 5, - 5), (- 5, - 5, - 5)]\<rparr>"

section \<open>Properties\<close>

subsection \<open>Failing steps of the loops\<close>

lemma mapM_err_same_error:
  assumes "x \<in> set xs" and "f x = Inl e" and "\<And>y e'. f y = Inl e' \<Longrightarrow> e' = e"
  shows "mapM_err f xs = Inl e"
  using assms(1,2)
proof (induction xs)
  case Nil
  then show ?case by simp
next
  case (Cons a xs)
  show ?case
  proof (cases "f a")
    case (Inl e')
    with assms(3) show ?thesis by simp
  next
    case (Inr y)
    with Cons have "mapM_err f xs = Inl e" by auto
    with Inr show ?thesis by simp
  qed
qed

lemma mapM_err_Inr_mem:
  assumes "mapM_err f xs = Inr ys" and "x \<in> set xs"
  shows "\<exists>y \<in> set ys. f x = Inr y"
  using assms by (induction xs arbitrary: ys) (auto split: sum.splits)

lemma first_material_error: "first_material obj = Inl e \<Longrightarrow> e = IndexError"
  by (auto simp: first_material_def py_index_def split: if_splits)

lemma build_materialMap_Inr:
  assumes "build_materialMap env ms mm = Inr mm'" and "m \<in> set ms"
  shows "\<exists>source mat. m = Some source \<and> create_material env source = Inr mat"
  using assms by (induction ms arbitrary: mm) (auto split: option.splits sum.splits)

lemma create_material_assert:
  "length (diffuseTex source) \<noteq> 1 \<Longrightarrow> create_material env source = Inl AssertionError"
  by (simp add: create_material_def Let_def)

subsection \<open>Materials and textures\<close>

text \<open>
  C8. The claim: the Texture's name is the base filename stripped of all extensions, for
  any filename, with or without dots. The code cuts the base name at the position
  \<^verbatim>\<open>find(".")\<close> returns, which is \<open>-1\<close> when there is no dot: the slice then drops the last
  character. For the path \<^verbatim>\<open>//textures/wood\<close> the name is \<^verbatim>\<open>woo\<close>.
\<close>

theorem create_texture_without_dot:
  "create_texture env
     \<lparr>image_filepath = Some ''//textures/wood'', use_map_color_diffuse = True,
      use_map_normal = False, use_map_specular = False\<rparr>
   = Inr \<lparr>t_index = 0, t_name = ''woo'', t_matrix = Matrix_new env\<rparr>"
  by (simp add: create_texture_def basename_def str_find_def slice_to_def)

lemma double_round_examples:
  "double_round 50 = 50"
  "double_round (1 / 4) = 1 / 4"
  "double_round (1 - 1 / 2 ^ 60) = 1"
  "double_round (1152921504606846975 / 1152921504606846976) = 1"
  by code_simp+

text \<open>
  C6, as claimed: with the mirror in use, \<open>reflectionBlurring\<close> equals 1 minus the gloss
  factor. The code subtracts floats: for a gloss factor of \<open>2\<close> to the \<open>-60\<close> the difference
  is rounded and the uniform is 1, which is not 1 minus that gloss factor.
\<close>

theorem faint_gloss_blurring:
  "built_uniform (create_material plain_env faint_gloss_material) ''reflectionBlurring'' = Some 1
   \<and> mirror_use faint_gloss_material
   \<and> mirror_gloss_factor faint_gloss_material = 1 / 2 ^ 60
   \<and> 1 - mirror_gloss_factor faint_gloss_material \<noteq> 1"
  by (simp add: built_uniform_def create_material_def create_texture_def diffuseTex_def
        faint_gloss_material_def mirror_material_def wood_material_def wood_slot_def
        float_sub_def double_round_examples Let_def)



text \<open>
  C5. A source material whose number of diffuse-flagged texture slots is not 1 makes
  \<open>create_material\<close> fail on its assertion; and when a mesh object of the scene has such a
  material in its first slot, \<open>write_file\<close> fails and leaves the host as it was: no file
  has been opened, the materials being built before the writer is created.
\<close>

theorem bad_diffuse_count_rejected:
  assumes "length (diffuseTex source) \<noteq> 1"
  shows "create_material env source = Inl AssertionError
       \<and> (\<forall>obj \<in> set (scene_objects h).
            o_type obj = ''MESH'' \<longrightarrow> first_material obj = Inr (Some source) \<longrightarrow>
            (\<exists>e. write_file env filename options h = (Inl e, h)))"
proof (intro conjI ballI impI)
  show bad: "create_material env source = Inl AssertionError"
    using assms by (rule create_material_assert)
  fix obj
  assume obj: "obj \<in> set (scene_objects h)" "o_type obj = ''MESH''"
    and fm: "first_material obj = Inr (Some source)"
  let ?objs = "filter (\<lambda>x. o_type x = ''MESH'') (scene_objects h)"
  from obj have mem: "obj \<in> set ?objs" by simp
  show "\<exists>e. write_file env filename options h = (Inl e, h)"
  proof (cases "mapM_err first_material ?objs")
    case (Inl e)
    then show ?thesis by (simp add: write_file_def assemble_def)
  next
    case (Inr ms)
    from mapM_err_Inr_mem [OF Inr mem] fm have src: "Some source \<in> set ms" by auto
    have "\<exists>e. build_materialMap env ms Map.empty = Inl e"
    proof (cases "build_materialMap env ms Map.empty")
      case (Inl e)
      then show ?thesis by blast
    next
      case (Inr mm)
      from build_materialMap_Inr [OF Inr src] bad
      show ?thesis by simp
    qed
    with Inr show ?thesis by (auto simp: write_file_def assemble_def)
  qed
qed

theorem bad_diffuse_count_rejected_witness:
  "length (diffuseTex bare_material) = 0
   \<and> length (diffuseTex double_material) = 2
   \<and> create_material plain_env bare_material = Inl AssertionError
   \<and> create_material plain_env double_material = Inl AssertionError
   \<and> (\<exists>e. write_file plain_env ''out.edm'' Map.empty bare_scene = (Inl e, bare_scene))
   \<and> files bare_scene = []"
proof -
  have n0: "length (diffuseTex bare_material) = 0"
    by (simp add: diffuseTex_def bare_material_def)
  have n2: "length (diffuseTex double_material) = 2"
    by (simp add: diffuseTex_def double_material_def wood_slot_def)
  have h0: "length (diffuseTex bare_material) \<noteq> 1" using n0 by simp
  have h2: "length (diffuseTex double_material) \<noteq> 1" using n2 by simp
  have obj: "sheet ''A'' bare_material \<in> set (scene_objects bare_scene)"
    "o_type (sheet ''A'' bare_material) = ''MESH''"
    "first_material (sheet ''A'' bare_material) = Inr (Some bare_material)"
    by (simp_all add: bare_scene_def sheet_def first_material_def py_index_def)
  from bad_diffuse_count_rejected [OF h0, of plain_env bare_scene "''out.edm''" Map.empty] obj
  have "create_material plain_env bare_material = Inl AssertionError"
    and "\<exists>e. write_file plain_env ''out.edm'' Map.empty bare_scene = (Inl e, bare_scene)"
    by blast+
  moreover from bad_diffuse_count_rejected [OF h2, of plain_env bare_scene "''out.edm''" Map.empty]
  have "create_material plain_env double_material = Inl AssertionError" by blast
  moreover have "files bare_scene = []" by (simp add: bare_scene_def)
  ultimately show ?thesis using n0 n2 by blast
qed

subsection \<open>Objects without a material slot\<close>

text \<open>
  C10. When some mesh object of the scene has an empty list of material slots,
  \<open>write_file\<close> fails with the IndexError of reading slot 0, and the host is as it was:
  nothing guards the read, no object is skipped, and no file has been opened.
\<close>

theorem empty_material_slots_IndexError:
  assumes "obj \<in> set (scene_objects h)" and "o_type obj = ''MESH''" and "material_slots obj = []"
  shows "write_file env filename options h = (Inl IndexError, h)"
proof -
  let ?objs = "filter (\<lambda>x. o_type x = ''MESH'') (scene_objects h)"
  from assms have mem: "obj \<in> set ?objs" by simp
  from assms(3) have "first_material obj = Inl IndexError"
    by (simp add: first_material_def py_index_def)
  with mem have "mapM_err first_material ?objs = Inl IndexError"
    by (rule mapM_err_same_error) (rule first_material_error)
  then show ?thesis by (simp add: write_file_def assemble_def)
qed

theorem empty_material_slots_IndexError_witness:
  "write_file plain_env ''out.edm'' Map.empty slotless_scene = (Inl IndexError, slotless_scene)
   \<and> files slotless_scene = []"
proof -
  let ?b = "(sheet ''B'' wood_material)\<lparr>material_slots := []\<rparr>"
  have "?b \<in> set (scene_objects slotless_scene)" "o_type ?b = ''MESH''" "material_slots ?b = []"
    by (simp_all add: slotless_scene_def sheet_def)
  then have "write_file plain_env ''out.edm'' Map.empty slotless_scene
             = (Inl IndexError, slotless_scene)"
    by (rule empty_material_slots_IndexError)
  then show ?thesis by (simp add: slotless_scene_def)
qed

subsection \<open>Flattening the faces\<close>

lemma new_vertex_Inr:
  "new_vertex env mesh uv i v = Inr x \<Longrightarrow> x = edm_vertex env (vertices mesh ! v) (uv ! i)"
  by (auto simp: new_vertex_def py_index_def Let_def split: if_splits)


lemma face_vertices_Inr:
  "face_vertices env mesh uv i face vs = Inr vs' \<Longrightarrow>
   vs' = vs @ map (\<lambda>k. edm_vertex env (vertices mesh ! (face ! k)) (uv ! (i + k))) [0..<length face]"
proof (induction face arbitrary: i vs)
  case Nil
  then show ?case by simp
next
  case (Cons v rest)
  from Cons.prems obtain x where x: "new_vertex env mesh uv i v = Inr x"
    and rest: "face_vertices env mesh uv (Suc i) rest (vs @ [x]) = Inr vs'"
    by (auto split: sum.splits)
  from Cons.IH [OF rest] new_vertex_Inr [OF x] show ?case
    by (simp add: map_upt_Suc del: upt_Suc)
qed





lemma flatten_face_Inr:
  assumes "flatten_face env mesh (vs, is) (face, uvFace) = Inr (vs', is')"
  shows "vs' = vs @ map (\<lambda>k. edm_vertex env (vertices mesh ! (face ! k)) (uvFace ! k)) [0..<length face]"
proof -
  from assms have "face_vertices env mesh uvFace 0 face vs = Inr vs'"
    by (auto simp: flatten_face_def Let_def split: sum.splits)
  from face_vertices_Inr [OF this] show ?thesis by simp
qed

lemma flatten_faces_Inr:
  "flatten_faces env mesh (vs, is) fus = Inr (vs', is') \<Longrightarrow>
   vs' = vs @ concat (map (\<lambda>(face, uvFace).
            map (\<lambda>k. edm_vertex env (vertices mesh ! (face ! k)) (uvFace ! k)) [0..<length face]) fus)"
proof (induction fus arbitrary: vs "is")
  case Nil
  then show ?case by simp
next
  case (Cons fu rest)
  obtain face uvFace where fu: "fu = (face, uvFace)" by (cases fu)
  from Cons.prems fu obtain vs1 is1 where
    one: "flatten_face env mesh (vs, is) (face, uvFace) = Inr (vs1, is1)"
    and more: "flatten_faces env mesh (vs1, is1) rest = Inr (vs', is')"
    by (auto split: sum.splits)
  from Cons.IH [OF more] flatten_face_Inr [OF one] fu show ?case by simp
qed

lemma remeshed_meshes:
  "data_meshes (remeshed env h source options) =
     data_meshes h @ [mesh_transform env (matrix_local source) (to_mesh source (apply_modifiers options))]"
  by (simp add: remeshed_def Let_def)



lemma sheet_rendernode:
  "create_rendernode plain_env two_sheets (sheet ''A'' wood_material) ''M'' Map.empty
   = (Inr sheet_node, two_sheets)"
  by (simp add: create_rendernode_def remeshed_def apply_modifiers_def plain_env_def
        two_sheets_def sheet_def sheet_mesh_def sheet_node_def flatten_face_def new_vertex_def
        py_index_def triangles_def remove_at_def Let_def)

text \<open>
  C3. The vertex data of a render node is, face by face and entry by entry, the transformed
  position of the mesh vertex (3 components), a zero, the vertex normal (3 components),
  the U of the matching UV entry and the negated V of that entry: 9 components, the
  fourth being 0.
\<close>

theorem create_rendernode_vertices:
  assumes "create_rendernode env h source material options = (Inr node, h')"
    and "mesh = mesh_transform env (matrix_local source) (to_mesh source (apply_modifiers options))"
  shows "\<exists>uv_tex. tessface_uv_active mesh = Some uv_tex
       \<and> vertexData node =
           concat (map (\<lambda>(face, uvFace).
              map (\<lambda>k. vec_list (vector_to_edm env (co (vertices mesh ! (face ! k)))) @ [0]
                       @ vec_list (vector_to_edm env (normal (vertices mesh ! (face ! k))))
                       @ [fst (uvFace ! k), - snd (uvFace ! k)])
                  [0..<length face])
              (zip (tessfaces mesh) uv_tex))
       \<and> (\<forall>vtx \<in> set (vertexData node). length vtx = 9 \<and> vtx ! 3 = 0)"
proof -
  have mesh: "data_meshes (remeshed env h source options) ! length (data_meshes h) = mesh"
    by (simp add: remeshed_meshes assms(2))
  from assms(1) mesh obtain uv_tex newIndexValues where
    uv: "tessface_uv_active mesh = Some uv_tex"
    and fl: "flatten_faces env mesh ([], []) (zip (tessfaces mesh) uv_tex)
             = Inr (vertexData node, newIndexValues)"
    by (auto simp: create_rendernode_def Let_def split: option.splits sum.splits prod.splits)
  from flatten_faces_Inr [OF fl]
  have vd: "vertexData node =
           concat (map (\<lambda>(face, uvFace).
              map (\<lambda>k. edm_vertex env (vertices mesh ! (face ! k)) (uvFace ! k)) [0..<length face])
              (zip (tessfaces mesh) uv_tex))"
    by simp
  have len: "length (vec_list v) = 3" for v by (cases v) auto
  have "\<forall>vtx \<in> set (vertexData node). length vtx = 9 \<and> vtx ! 3 = 0"
    unfolding vd by (auto simp: len nth_append)
  with uv vd show ?thesis by blast
qed

theorem create_rendernode_vertices_witness:
  "create_rendernode plain_env two_sheets (sheet ''A'' wood_material) ''M'' Map.empty
     = (Inr sheet_node, two_sheets)
   \<and> vertexData sheet_node ! 2 = [1, 1, 0, 0, 0, 0, 1, 1, - 1]
   \<and> vertexData sheet_node ! 2 \<in> set (vertexData sheet_node)
   \<and> length (vertexData sheet_node ! 2) = 9
   \<and> vertexData sheet_node ! 2 ! 3 = 0"
proof -
  have mesh: "sheet_mesh = mesh_transform plain_env (matrix_local (sheet ''A'' wood_material))
                 (to_mesh (sheet ''A'' wood_material) (apply_modifiers Map.empty))"
    by (simp add: plain_env_def sheet_def)
  have v: "vertexData sheet_node ! 2 = [1, 1, 0, 0, 0, 0, 1, 1, - 1]"
    and mem: "vertexData sheet_node ! 2 \<in> set (vertexData sheet_node)"
    by (simp_all add: sheet_node_def)
  from create_rendernode_vertices [OF sheet_rendernode mesh]
  have "\<forall>vtx \<in> set (vertexData sheet_node). length vtx = 9 \<and> vtx ! 3 = 0"
    by blast
  with mem have "length (vertexData sheet_node ! 2) = 9 \<and> vertexData sheet_node ! 2 ! 3 = 0"
    by blast
  with sheet_rendernode v mem show ?thesis by blast
qed

subsection \<open>The transient mesh\<close>




subsection \<open>The node table\<close>





subsection \<open>The world bounds\<close>

lemma Min_seed_append:
  "Min (set (Min (set (a # xs)) # ys)) = Min (set (a # xs @ ys))"
proof (cases "ys = []")
  case True
  then show ?thesis by simp
next
  case False
  have "Min (set (a # xs @ ys)) = Min (set (a # xs) \<union> set ys)" by simp
  also have "\<dots> = min (Min (set (a # xs))) (Min (set ys))"
    using False by (intro Min_Un) auto
  also have "\<dots> = Min (insert (Min (set (a # xs))) (set ys))"
    using False by (simp add: Min_insert)
  finally show ?thesis by simp
qed

lemma Max_seed_append:
  "Max (set (Max (set (a # xs)) # ys)) = Max (set (a # xs @ ys))"
proof (cases "ys = []")
  case True
  then show ?thesis by simp
next
  case False
  have "Max (set (a # xs @ ys)) = Max (set (a # xs) \<union> set ys)" by simp
  also have "\<dots> = max (Max (set (a # xs))) (Max (set ys))"
    using False by (intro Max_Un) auto
  also have "\<dots> = Max (insert (Max (set (a # xs))) (set ys))"
    using False by (simp add: Max_insert)
  finally show ?thesis by simp
qed

lemma bounds_index_fold:
  "fold (bounds_index points) [0..<3] ([a0, a1, a2], [b0, b1, b2]) =
     ([Min (set (a0 # map (\<lambda>p. vec_nth p 0) points)),
       Min (set (a1 # map (\<lambda>p. vec_nth p 1) points)),
       Min (set (a2 # map (\<lambda>p. vec_nth p 2) points))],
      [Max (set (b0 # map (\<lambda>p. vec_nth p 0) points)),
       Max (set (b1 # map (\<lambda>p. vec_nth p 1) points)),
       Max (set (b2 # map (\<lambda>p. vec_nth p 2) points))])"
proof -
  have upt: "[0..<3] = [0, Suc 0, Suc (Suc 0)]" by (simp add: eval_nat_numeral)
  show ?thesis
    unfolding upt by (simp add: bounds_index_def insert_commute eval_nat_numeral)
qed

lemma world_coords_Cons:
  "world_coords env (obj # rest) index =
     (if o_type obj = ''CAMERA'' then world_coords env rest index
      else corner_coords env obj index @ world_coords env rest index)"
  by (simp add: world_coords_def)

lemma bounds_object_step:
  "bounds_object env obj ([a0, a1, a2], [b0, b1, b2]) =
     (if o_type obj = ''CAMERA'' then ([a0, a1, a2], [b0, b1, b2])
      else ([Min (set (a0 # corner_coords env obj 0)),
             Min (set (a1 # corner_coords env obj 1)),
             Min (set (a2 # corner_coords env obj 2))],
            [Max (set (b0 # corner_coords env obj 0)),
             Max (set (b1 # corner_coords env obj 1)),
             Max (set (b2 # corner_coords env obj 2))]))"
  unfolding bounds_object_def Let_def bounds_index_fold corner_coords_def
  by (simp add: comp_def)

lemma bounds_fold:
  "fold (bounds_object env) objects ([a0, a1, a2], [b0, b1, b2]) =
     ([Min (set (a0 # world_coords env objects 0)),
       Min (set (a1 # world_coords env objects 1)),
       Min (set (a2 # world_coords env objects 2))],
      [Max (set (b0 # world_coords env objects 0)),
       Max (set (b1 # world_coords env objects 1)),
       Max (set (b2 # world_coords env objects 2))])"
proof (induction objects arbitrary: a0 a1 a2 b0 b1 b2)
  case Nil
  show ?case by (simp add: world_coords_def)
next
  case (Cons obj rest)
  show ?case
  proof (cases "o_type obj = ''CAMERA''")
    case True
    then have step: "bounds_object env obj ([a0, a1, a2], [b0, b1, b2])
                     = ([a0, a1, a2], [b0, b1, b2])"
      by (simp add: bounds_object_step)
    from True have wc: "world_coords env (obj # rest) index = world_coords env rest index"
      for index by (simp add: world_coords_Cons)
    show ?thesis
      by (simp only: fold_Cons comp_apply step wc Cons.IH)
  next
    case False
    then have step: "bounds_object env obj ([a0, a1, a2], [b0, b1, b2])
                     = ([Min (set (a0 # corner_coords env obj 0)),
                         Min (set (a1 # corner_coords env obj 1)),
                         Min (set (a2 # corner_coords env obj 2))],
                        [Max (set (b0 # corner_coords env obj 0)),
                         Max (set (b1 # corner_coords env obj 1)),
                         Max (set (b2 # corner_coords env obj 2))])"
      by (simp add: bounds_object_step)
    from False have wc: "world_coords env (obj # rest) index
                         = corner_coords env obj index @ world_coords env rest index"
      for index by (simp add: world_coords_Cons)
    show ?thesis
      by (simp only: fold_Cons comp_apply step wc Cons.IH Min_seed_append Max_seed_append)
  qed
qed

lemma Min_seed_drop:
  assumes "xs \<noteq> []" and "\<forall>x \<in> set xs. x \<le> (s::real)"
  shows "Min (set (s # xs)) = Min (set xs)"
proof -
  from assms obtain x where "x \<in> set xs" "x \<le> s" by (cases xs) auto
  then have "Min (set xs) \<le> s" by (meson List.finite_set Min_le order_trans)
  with assms(1) show ?thesis by (simp add: Min_insert min_absorb2)
qed

lemma Max_seed_drop:
  assumes "xs \<noteq> []" and "\<forall>x \<in> set xs. (s::real) \<le> x"
  shows "Max (set (s # xs)) = Max (set xs)"
proof -
  from assms obtain x where "x \<in> set xs" "s \<le> x" by (cases xs) auto
  then have "s \<le> Max (set xs)" by (meson List.finite_set Max_ge order_trans)
  with assms(1) show ?thesis by (simp add: Max_insert max_absorb2)
qed

text \<open>
  C7, as claimed: for a scene with a single object that is no camera, the result is the
  componentwise minimum and maximum of that object's transformed corners. It is not when
  the corners lie beyond the seeds: for a box between \<open>x = 2 * 10 ^ 38\<close> and
  \<open>x = 3 * 10 ^ 38\<close> the minimum returned for \<open>x\<close> is the seed \<open>10 ^ 38\<close>, not \<open>2 * 10 ^ 38\<close>.
\<close>

theorem far_box_bounds:
  "calculate_world_bounds plain_env [far_box] = ((10 ^ 38, 0, 0), (3 * 10 ^ 38, 1, 1))
   \<and> (Min (set (corner_coords plain_env far_box 0)),
      Min (set (corner_coords plain_env far_box 1)),
      Min (set (corner_coords plain_env far_box 2))) = (2 * 10 ^ 38, 0, 0)"
  by (simp add: calculate_world_bounds_def bounds_object_def bounds_index_def Vector_def
        corner_coords_def far_box_def sheet_def plain_env_def vec_nth_def Let_def
        eval_nat_numeral)

text \<open>
  C7, amended: \<open>calculate_world_bounds\<close> returns, for each of the three coordinates, the
  minimum of \<open>10 ^ 38\<close> and the maximum of \<open>- 10 ^ 38\<close> together with that coordinate of
  the world-transformed bounding-box corners of every object that is no camera. For a
  scene with a single such object whose transformed corner coordinates all lie between
  \<open>- 10 ^ 38\<close> and \<open>10 ^ 38\<close>, the result is the componentwise minimum and maximum of that
  object's corners.
\<close>

theorem calculate_world_bounds_minmax:
  "calculate_world_bounds env objects =
     ((Min (set (10 ^ 38 # world_coords env objects 0)),
       Min (set (10 ^ 38 # world_coords env objects 1)),
       Min (set (10 ^ 38 # world_coords env objects 2))),
      (Max (set (- (10 ^ 38) # world_coords env objects 0)),
       Max (set (- (10 ^ 38) # world_coords env objects 1)),
       Max (set (- (10 ^ 38) # world_coords env objects 2))))
   \<and> (filter (\<lambda>obj. o_type obj \<noteq> ''CAMERA'') objects = [obj] \<and> bound_box obj \<noteq> []
        \<and> (\<forall>x \<in> set (bound_box obj). \<forall>index<3.
              \<bar>vec_nth (matrix_mul env (matrix_world obj) x) index\<bar> \<le> 10 ^ 38)
      \<longrightarrow> calculate_world_bounds env objects =
            ((Min (set (corner_coords env obj 0)),
              Min (set (corner_coords env obj 1)),
              Min (set (corner_coords env obj 2))),
             (Max (set (corner_coords env obj 0)),
              Max (set (corner_coords env obj 1)),
              Max (set (corner_coords env obj 2)))))"
proof (intro conjI impI)
  show gen: "calculate_world_bounds env objects =
     ((Min (set (10 ^ 38 # world_coords env objects 0)),
       Min (set (10 ^ 38 # world_coords env objects 1)),
       Min (set (10 ^ 38 # world_coords env objects 2))),
      (Max (set (- (10 ^ 38) # world_coords env objects 0)),
       Max (set (- (10 ^ 38) # world_coords env objects 1)),
       Max (set (- (10 ^ 38) # world_coords env objects 2))))"
    unfolding calculate_world_bounds_def bounds_fold by (simp add: Vector_def)
  assume a: "filter (\<lambda>obj. o_type obj \<noteq> ''CAMERA'') objects = [obj] \<and> bound_box obj \<noteq> []
        \<and> (\<forall>x \<in> set (bound_box obj). \<forall>index<3.
              \<bar>vec_nth (matrix_mul env (matrix_world obj) x) index\<bar> \<le> 10 ^ 38)"
  then have wc: "world_coords env objects index = corner_coords env obj index" for index
    by (simp add: world_coords_def)
  have ne: "corner_coords env obj index \<noteq> []" for index
    using a by (simp add: corner_coords_def)
  have bnd: "\<forall>c \<in> set (corner_coords env obj index). \<bar>c\<bar> \<le> 10 ^ 38"
    if "index < 3" for index
    using a that by (auto simp: corner_coords_def)
  have le: "\<forall>c \<in> set (corner_coords env obj index). c \<le> 10 ^ 38"
    and ge: "\<forall>c \<in> set (corner_coords env obj index). - (10 ^ 38) \<le> c"
    if "index < 3" for index
    using bnd [OF that] by (fastforce simp: abs_le_iff)+
  have "Min (set (10 ^ 38 # world_coords env objects index)) = Min (set (corner_coords env obj index))"
    and "Max (set (- (10 ^ 38) # world_coords env objects index)) = Max (set (corner_coords env obj index))"
    if "index < 3" for index
    unfolding wc using Min_seed_drop [OF ne le [OF that]] Max_seed_drop [OF ne ge [OF that]]
    by simp_all
  from this [of 0] this [of 1] this [of 2] gen
  show "calculate_world_bounds env objects =
            ((Min (set (corner_coords env obj 0)),
              Min (set (corner_coords env obj 1)),
              Min (set (corner_coords env obj 2))),
             (Max (set (corner_coords env obj 0)),
              Max (set (corner_coords env obj 1)),
              Max (set (corner_coords env obj 2))))"
    by simp
qed

theorem calculate_world_bounds_minmax_witness:
  "filter (\<lambda>obj. o_type obj \<noteq> ''CAMERA'') [camera_object, sheet ''A'' wood_material]
     = [sheet ''A'' wood_material]
   \<and> length (bound_box (sheet ''A'' wood_material)) = 8
   \<and> calculate_world_bounds plain_env [camera_object, sheet ''A'' wood_material]
     = ((0, 0, 0), (1, 1, 0))"
proof -
  let ?obj = "sheet ''A'' wood_material"
  have f: "filter (\<lambda>obj. o_type obj \<noteq> ''CAMERA'') [camera_object, ?obj] = [?obj]"
    by (simp add: camera_object_def sheet_def)
  have n: "bound_box ?obj \<noteq> []" and n8: "length (bound_box ?obj) = 8"
    by (simp_all add: sheet_def)
  have r: "\<forall>x \<in> set (bound_box ?obj). \<forall>index<3.
              \<bar>vec_nth (matrix_mul plain_env (matrix_world ?obj) x) index\<bar> \<le> 10 ^ 38"
    by (simp add: sheet_def plain_env_def vec_nth_def All_less_Suc eval_nat_numeral)
  from calculate_world_bounds_minmax [of plain_env "[camera_object, ?obj]" ?obj] f n r
  have "calculate_world_bounds plain_env [camera_object, ?obj] =
            ((Min (set (corner_coords plain_env ?obj 0)),
              Min (set (corner_coords plain_env ?obj 1)),
              Min (set (corner_coords plain_env ?obj 2))),
             (Max (set (corner_coords plain_env ?obj 0)),
              Max (set (corner_coords plain_env ?obj 1)),
              Max (set (corner_coords plain_env ?obj 2))))"
    by blast
  also have "\<dots> = ((0, 0, 0), (1, 1, 0))"
    by (simp add: corner_coords_def sheet_def plain_env_def vec_nth_def)
  finally show ?thesis using f n8 by blast
qed

subsection \<open>The material table\<close>

text \<open>
  C1. The claim: a material shared by two mesh objects appears once in the material table,
  the indices are dense from zero, and both render nodes get the same index. In the code
  the table is filled by a loop over the list with one material per mesh object: for two
  objects with the one material \<open>M\<close> the file is written with a table of two entries, both
  the Material \<open>M\<close> and both of index 1, and both render nodes refer to index 1.
\<close>

theorem shared_material_listed_twice:
  "fst (write_file plain_env ''out.edm'' Map.empty two_sheets) = Inr ()
   \<and> map (\<lambda>(filename, file).
            (filename,
             map m_name (r_materials (f_root file)),
             map m_index (r_materials (f_root file)),
             map rr_material (f_renderNodes file)))
         (files (snd (write_file plain_env ''out.edm'' Map.empty two_sheets)))
     = [(''out.edm'', [''M'', ''M''], [Some 1, Some 1], [Some 1, Some 1])]"
  by code_simp

end
